theory Spec2Isabelle
  imports
    Complex_Main
    "HOL-Library.AList"
    "HOL-Library.FSet"
    "HOL-Library.Char_ord"
    "HOL-Library.List_Lexorder"
begin

section \<open>Event documents\<close>

text \<open>
  The handlers of \<^verbatim>\<open>main.py\<close> receive loosely typed documents: whatever the
  transport decoded. They are modelled as a datatype of JSON values.
  A dict is an association list read with \<open>map_of\<close>.

  A decoded number with a fraction or an exponent is a Python float. Of a float the
  handlers use its truth value, its equality with other values and its use as a dict
  key, never its arithmetic, so a finite float is given by its value, a rational
  (every double is one). Negative zero, the infinities and NaN, which the decoder
  accepts too, are values of their own.
\<close>

datatype pyfloat = Finite rat | NegZero | PosInf | NegInf | NaN

datatype json =
    JNull
  | JBool bool
  | JInt int
  | JFloat pyfloat
  | JStr string
  | JArr "json list"
  | JObj "(string \<times> json) list"

text \<open>Python's truth value of a document, as tested by \<^verbatim>\<open>not x\<close> and \<^verbatim>\<open>x or y\<close>.\<close>

fun truthy :: "json \<Rightarrow> bool" where
  "truthy JNull = False"
| "truthy (JBool b) = b"
| "truthy (JInt i) = (i \<noteq> 0)"
| "truthy (JFloat (Finite q)) = (q \<noteq> 0)"
| "truthy (JFloat NegZero) = False"
| "truthy (JFloat f) = True"
| "truthy (JStr s) = (s \<noteq> [])"
| "truthy (JArr xs) = (xs \<noteq> [])"
| "truthy (JObj kvs) = (kvs \<noteq> [])"

text \<open>Lists and dicts cannot be dict keys: using one as a key raises TypeError.\<close>

fun hashable :: "json \<Rightarrow> bool" where
  "hashable (JArr xs) = False"
| "hashable (JObj kvs) = False"
| "hashable v = True"

text \<open>
  As dict keys, numbers of the same value are the same key: \<^verbatim>\<open>True\<close>, \<^verbatim>\<open>1\<close> and
  \<^verbatim>\<open>1.0\<close>, or \<^verbatim>\<open>False\<close>, \<^verbatim>\<open>0\<close>, \<^verbatim>\<open>0.0\<close> and \<^verbatim>\<open>-0.0\<close>. Keys are stored in this
  normal form. The decoder hands out one and the same NaN object every time, and a dict
  finds a key that is the very object it is asked for, so NaN is a key like any other.
\<close>

fun norm_key :: "json \<Rightarrow> json" where
  "norm_key (JBool b) = JInt (if b then 1 else 0)"
| "norm_key (JFloat (Finite q)) =
     (if of_int \<lfloor>q\<rfloor> = q then JInt \<lfloor>q\<rfloor> else JFloat (Finite q))"
| "norm_key (JFloat NegZero) = JInt 0"
| "norm_key v = v"

text \<open>
  \<^verbatim>\<open>a == b\<close> where \<open>b\<close> is a value that can be a dict key, as it is where the
  handlers compare: numbers are equal by value, strings by content, null to null only,
  a list or dict to no such \<open>b\<close>; and NaN is equal to nothing, not even to itself.
\<close>

definition py_eq :: "json \<Rightarrow> json \<Rightarrow> bool" where
  "py_eq a b = (a \<noteq> JFloat NaN \<and> norm_key a = norm_key b)"

datatype error = AttributeError | TypeError

text \<open>\<^verbatim>\<open>data.get(k)\<close>: only a dict has \<^verbatim>\<open>get\<close>; a missing key reads as \<^verbatim>\<open>None\<close>.\<close>

definition dict_get :: "json \<Rightarrow> string \<Rightarrow> error + json" where
  "dict_get data k =
     (case data of
        JObj kvs \<Rightarrow> Inr (case map_of kvs k of None \<Rightarrow> JNull | Some v \<Rightarrow> v)
      | _ \<Rightarrow> Inl AttributeError)"

text \<open>\<^verbatim>\<open>data or {}\<close>\<close>

definition or_empty :: "json \<Rightarrow> json" where
  "or_empty data = (if truthy data then data else JObj [])"

section \<open>Server state\<close>

text \<open>
  \<^verbatim>\<open>peer_meta[sid] = {"name": ..., "room": ...}\<close>: both keys are always written
  together and never deleted, so the inner dict is a record.
\<close>

record meta =
  m_name :: json
  m_room :: json

text \<open>
  The two module-level dicts. A Python dict keeps insertion order, as an association
  list updated with \<open>AList.update\<close> does. A member set is a finite set of ids.
\<close>

record server =
  rooms :: "(json \<times> string fset) list"
  peer_meta :: "(string \<times> meta) list"

definition init :: server where
  "init = \<lparr>rooms = [], peer_meta = []\<rparr>"

text \<open>\<^verbatim>\<open>rooms.get(room, set())\<close>\<close>

definition members :: "server \<Rightarrow> json \<Rightarrow> string fset" where
  "members s room =
     (case map_of (rooms s) (norm_key room) of None \<Rightarrow> {||} | Some ms \<Rightarrow> ms)"

text \<open>
  \<^verbatim>\<open>rooms[room].add(sid)\<close> and \<^verbatim>\<open>rooms[room].discard(sid)\<close> on the
  \<^verbatim>\<open>defaultdict(set)\<close>: reading a key that is not there first stores an empty set.
\<close>

definition rooms_add :: "server \<Rightarrow> json \<Rightarrow> string \<Rightarrow> server" where
  "rooms_add s room sid =
     s\<lparr>rooms := AList.update (norm_key room) (finsert sid (members s room)) (rooms s)\<rparr>"

definition rooms_discard :: "server \<Rightarrow> json \<Rightarrow> string \<Rightarrow> server" where
  "rooms_discard s room sid =
     s\<lparr>rooms := AList.update (norm_key room) (members s room |-| {|sid|}) (rooms s)\<rparr>"

text \<open>\<^verbatim>\<open>peer_meta.get(sid, {}).get("name", sid)\<close>\<close>

definition display_name :: "server \<Rightarrow> string \<Rightarrow> json" where
  "display_name s sid =
     (case map_of (peer_meta s) sid of None \<Rightarrow> JStr sid | Some m \<Rightarrow> m_name m)"

section \<open>Calls into the transport\<close>

datatype dest =
    ToRoom json "string option"
  | ToSid json

datatype call =
    EnterRoom string json
  | LeaveRoom string json
  | Emit string json dest

text \<open>
  What a handler leaves behind: the state, the transport calls it made in order, and
  the exception its own statements raised, if any. A raise keeps the mutations made
  before it. What the transport does with a call, failing included, is not part of
  the handlers.
\<close>

record outcome =
  after :: server
  calls :: "call list"
  raised :: "error option"

definition returns :: "server \<Rightarrow> call list \<Rightarrow> outcome" where
  "returns s cs = \<lparr>after = s, calls = cs, raised = None\<rparr>"

definition raises :: "server \<Rightarrow> call list \<Rightarrow> error \<Rightarrow> outcome" where
  "raises s cs e = \<lparr>after = s, calls = cs, raised = Some e\<rparr>"

subsection \<open>Who a call reaches\<close>







section \<open>Presence broadcaster\<close>

text \<open>
  Python leaves the iteration order of a set open; the model lists the members in
  sorted order. The properties below speak of the length and of the set of entries
  only, never of their order.
\<close>

definition peer_entries :: "server \<Rightarrow> json \<Rightarrow> (string \<times> json) list" where
  "peer_entries s room =
     map (\<lambda>sid. (sid, display_name s sid)) (sorted_list_of_fset (members s room))"

definition broadcast_peer_list :: "server \<Rightarrow> json \<Rightarrow> error + call list" where
  "broadcast_peer_list s room =
     (if \<not> hashable room then Inl TypeError
      else Inr [Emit ''peer-list''
                  (JObj [(''peers'',
                     JArr (map (\<lambda>(sid, nm). JObj [(''sid'', JStr sid), (''name'', nm)])
                            (peer_entries s room)))])
                  (ToRoom room None)])"

text \<open>A handler that ends with \<^verbatim>\<open>await broadcast_peer_list(room)\<close>.\<close>

definition then_broadcast :: "server \<Rightarrow> call list \<Rightarrow> json \<Rightarrow> outcome" where
  "then_broadcast s cs room =
     (case broadcast_peer_list s room of
        Inl e \<Rightarrow> raises s cs e
      | Inr bc \<Rightarrow> returns s (cs @ bc))"

section \<open>Handlers\<close>

definition disconnect :: "server \<Rightarrow> string \<Rightarrow> outcome" where
  "disconnect s sid =
     (let s1 = s\<lparr>peer_meta := AList.delete sid (peer_meta s)\<rparr> in
      case map_of (peer_meta s) sid of
        None \<Rightarrow> returns s1 []
      | Some info \<Rightarrow>
          let room = m_room info in
          if truthy room then
            if \<not> hashable room then raises s1 [] TypeError
            else
              then_broadcast (rooms_discard s1 room sid)
                [Emit ''peer-left'' (JObj [(''sid'', JStr sid)]) (ToRoom room None)] room
          else returns s1 [])"

definition join :: "server \<Rightarrow> string \<Rightarrow> json \<Rightarrow> outcome" where
  "join s sid data =
     (case dict_get (or_empty data) ''room'' of
        Inl e \<Rightarrow> raises s [] e
      | Inr room \<Rightarrow>
     (case dict_get (or_empty data) ''name'' of
        Inl e \<Rightarrow> raises s [] e
      | Inr nm \<Rightarrow>
          let name = (if truthy nm then nm else JStr sid) in
          if \<not> truthy room then returns s []
          else if \<not> hashable room then raises s [EnterRoom sid room] TypeError
          else
            let s1 = rooms_add s room sid;
                s2 = s1\<lparr>peer_meta :=
                       AList.update sid \<lparr>m_name = name, m_room = room\<rparr> (peer_meta s1)\<rparr>
            in then_broadcast s2
                 [EnterRoom sid room,
                  Emit ''peer-joined'' (JObj [(''sid'', JStr sid)]) (ToRoom room (Some sid))]
                 room))"

definition leave :: "server \<Rightarrow> string \<Rightarrow> json \<Rightarrow> outcome" where
  "leave s sid data =
     (case dict_get (or_empty data) ''room'' of
        Inl e \<Rightarrow> raises s [] e
      | Inr room \<Rightarrow>
          if \<not> truthy room then returns s []
          else if \<not> hashable room then raises s [LeaveRoom sid room] TypeError
          else
            let s1 = rooms_discard s room sid;
                s2 = (case map_of (peer_meta s1) sid of
                        None \<Rightarrow> s1
                      | Some m \<Rightarrow>
                          if py_eq (m_room m) room
                          then s1\<lparr>peer_meta := AList.delete sid (peer_meta s1)\<rparr>
                          else s1)
            in then_broadcast s2
                 [LeaveRoom sid room,
                  Emit ''peer-left'' (JObj [(''sid'', JStr sid)]) (ToRoom room None)]
                 room)"

text \<open>
  \<^verbatim>\<open>str\<close> is Python's builtin; \<open>rename\<close> takes it as the parameter \<open>str_of\<close>.
\<close>

definition rename :: "(json \<Rightarrow> string) \<Rightarrow> server \<Rightarrow> string \<Rightarrow> json \<Rightarrow> outcome" where
  "rename str_of s sid data =
     (case dict_get (or_empty data) ''name'' of
        Inl e \<Rightarrow> raises s [] e
      | Inr name \<Rightarrow>
          if \<not> truthy name then returns s []
          else
           (case map_of (peer_meta s) sid of
              None \<Rightarrow> returns s []
            | Some info \<Rightarrow>
                let s1 = s\<lparr>peer_meta :=
                       AList.update sid (info\<lparr>m_name := JStr (str_of name)\<rparr>) (peer_meta s)\<rparr>
                in
                let room = m_room info
                in if truthy room then then_broadcast s1 [] room else returns s1 []))"

definition list_peers :: "server \<Rightarrow> string \<Rightarrow> json \<Rightarrow> outcome" where
  "list_peers s sid data =
     (case dict_get (or_empty data) ''room'' of
        Inl e \<Rightarrow> raises s [] e
      | Inr room \<Rightarrow>
          if \<not> truthy room then returns s [] else then_broadcast s [] room)"

definition signal :: "server \<Rightarrow> string \<Rightarrow> json \<Rightarrow> outcome" where
  "signal s sid data =
     (if \<not> truthy data then returns s []
      else
        case dict_get data ''room'' of
          Inl e \<Rightarrow> raises s [] e
        | Inr room \<Rightarrow>
        (case dict_get data ''payload'' of
          Inl e \<Rightarrow> raises s [] e
        | Inr payload \<Rightarrow>
            if \<not> truthy room then returns s []
            else returns s
              [Emit ''signal'' (JObj [(''from'', JStr sid), (''payload'', payload)])
                 (ToRoom room (Some sid))]))"

definition offer :: "server \<Rightarrow> string \<Rightarrow> json \<Rightarrow> outcome" where
  "offer s sid data =
     (if \<not> truthy data then returns s []
      else
        case dict_get data ''room'' of
          Inl e \<Rightarrow> raises s [] e
        | Inr room \<Rightarrow>
        (case dict_get data ''target'' of
          Inl e \<Rightarrow> raises s [] e
        | Inr target \<Rightarrow>
        (case dict_get data ''payload'' of
          Inl e \<Rightarrow> raises s [] e
        | Inr payload \<Rightarrow>
            if \<not> truthy room \<or> \<not> truthy target \<or> payload = JNull then returns s []
            else
              let sender_name = display_name s sid in
              returns s
                [Emit ''offer''
                   (JObj [(''from'', JStr sid), (''name'', sender_name), (''payload'', payload)])
                   (ToSid target)])))"

definition offer_response :: "server \<Rightarrow> string \<Rightarrow> json \<Rightarrow> outcome" where
  "offer_response s sid data =
     (if \<not> truthy data then returns s []
      else
        case dict_get data ''room'' of
          Inl e \<Rightarrow> raises s [] e
        | Inr room \<Rightarrow>
        (case dict_get data ''target'' of
          Inl e \<Rightarrow> raises s [] e
        | Inr target \<Rightarrow>
        (case dict_get data ''accepted'' of
          Inl e \<Rightarrow> raises s [] e
        | Inr acc \<Rightarrow>
        (case dict_get data ''payload'' of
          Inl e \<Rightarrow> raises s [] e
        | Inr payload \<Rightarrow>
        (case dict_get data ''offer'' of
          Inl e \<Rightarrow> raises s [] e
        | Inr offer_payload \<Rightarrow>
            let accepted = JBool (truthy acc) in
            if \<not> truthy room \<or> \<not> truthy target then returns s []
            else
              let sender_name = display_name s sid in
              returns s
                [Emit ''offer-response''
                   (JObj [(''from'', JStr sid), (''name'', sender_name),
                          (''accepted'', accepted), (''payload'', payload),
                          (''offer'', offer_payload)])
                   (ToSid target)])))))"

section \<open>The server as a machine over inbound events\<close>

datatype event =
    Connect string
  | Disconnect string
  | Join string json
  | Leave string json
  | Rename string json
  | ListPeers string json
  | Signal string json
  | Offer string json
  | OfferResponse string json

fun handle :: "(json \<Rightarrow> string) \<Rightarrow> server \<Rightarrow> event \<Rightarrow> outcome" where
  "handle str_of s (Connect sid) = returns s []"
| "handle str_of s (Disconnect sid) = disconnect s sid"
| "handle str_of s (Join sid data) = join s sid data"
| "handle str_of s (Leave sid data) = leave s sid data"
| "handle str_of s (Rename sid data) = rename str_of s sid data"
| "handle str_of s (ListPeers sid data) = list_peers s sid data"
| "handle str_of s (Signal sid data) = signal s sid data"
| "handle str_of s (Offer sid data) = offer s sid data"
| "handle str_of s (OfferResponse sid data) = offer_response s sid data"

text \<open>
  Events are handled one at a time; an exception ends its handler only, and the next
  event sees the state as that handler left it.
\<close>

fun run :: "(json \<Rightarrow> string) \<Rightarrow> server \<Rightarrow> event list \<Rightarrow> server" where
  "run str_of s [] = s"
| "run str_of s (e # es) = run str_of (after (handle str_of s e)) es"

section \<open>Vocabulary of the properties\<close>

text \<open>
  A document lacks field \<open>k\<close> when it is absent or empty, or a dict in which \<open>k\<close> is
  not a key or is null: the cases in which \<^verbatim>\<open>.get(k)\<close> reads \<^verbatim>\<open>None\<close>.
\<close>

definition lacks :: "json \<Rightarrow> string \<Rightarrow> bool" where
  "lacks data k =
     (case or_empty data of
        JObj kvs \<Rightarrow> (case map_of kvs k of None \<Rightarrow> True | Some v \<Rightarrow> v = JNull)
      | _ \<Rightarrow> False)"

text \<open>A document has field \<open>k\<close> when it is a dict that maps \<open>k\<close> to a value other than null.\<close>

definition has_field :: "json \<Rightarrow> string \<Rightarrow> bool" where
  "has_field data k =
     (case data of
        JObj kvs \<Rightarrow> (case map_of kvs k of None \<Rightarrow> False | Some v \<Rightarrow> v \<noteq> JNull)
      | _ \<Rightarrow> False)"

text \<open>
  A document that is there but is not a dict: a non-empty string or list, a number
  other than zero, or true. It has no fields, and no \<^verbatim>\<open>get\<close> either.
\<close>

definition non_dict :: "json \<Rightarrow> bool" where
  "non_dict data = (truthy data \<and> (case data of JObj kvs \<Rightarrow> False | _ \<Rightarrow> True))"

text \<open>The entry of the peer list that stands for member \<open>sid\<close>.\<close>

definition entry_of :: "server \<Rightarrow> string \<Rightarrow> json" where
  "entry_of s sid =
     JObj [(''sid'', JStr sid),
           (''name'', case map_of (peer_meta s) sid of None \<Rightarrow> JStr sid | Some m \<Rightarrow> m_name m)]"

text \<open>
  The registry-to-index invariant: every id whose registry entry records a room is in
  the member set the room index holds for that room.
\<close>

definition registry_in_index :: "server \<Rightarrow> bool" where
  "registry_in_index s =
     list_all
       (\<lambda>sid. case map_of (peer_meta s) sid of
                 None \<Rightarrow> True
               | Some m \<Rightarrow> sid |\<in>| members s (m_room m))
       (map fst (peer_meta s))"

text \<open>
  The room key a \<open>join\<close> with document \<open>data\<close> registers the peer under, when it gets
  that far: the room has to be there, truthy and usable as a key.
\<close>

definition join_target :: "json \<Rightarrow> json option" where
  "join_target data =
     (case dict_get (or_empty data) ''room'' of
        Inl e \<Rightarrow> None
      | Inr room \<Rightarrow> if truthy room \<and> hashable room then Some (norm_key room) else None)"

text \<open>The room of the last successful join of an event sequence, if there is one.\<close>

fun last_join_from :: "json option \<Rightarrow> event list \<Rightarrow> json option" where
  "last_join_from cur [] = cur"
| "last_join_from cur (Join p d # es) =
     last_join_from (case join_target d of None \<Rightarrow> cur | Some r \<Rightarrow> Some r) es"
| "last_join_from cur (e # es) = last_join_from cur es"

definition last_join :: "event list \<Rightarrow> json option" where
  "last_join evs = last_join_from None evs"

text \<open>A join or leave issued by peer \<open>sid\<close>.\<close>

fun by_peer :: "string \<Rightarrow> event \<Rightarrow> bool" where
  "by_peer sid (Join p d) = (p = sid)"
| "by_peer sid (Leave p d) = (p = sid)"
| "by_peer sid e = False"

text \<open>An event that is not a leave whose room argument is NaN.\<close>

fun no_nan_leave :: "event \<Rightarrow> bool" where
  "no_nan_leave (Leave sid d) = (dict_get (or_empty d) ''room'' \<noteq> Inr (JFloat NaN))"
| "no_nan_leave e = True"

text \<open>No member set other than the one of room key \<open>r\<close> holds \<open>sid\<close>.\<close>

definition in_no_other_room :: "server \<Rightarrow> string \<Rightarrow> json \<Rightarrow> bool" where
  "in_no_other_room s sid r = list_all (\<lambda>(k, ms). sid |\<notin>| ms \<or> k = r) (rooms s)"

text \<open>
  A sequence in which every successful join finds its peer in no room other than the one
  it joins: the peer has left its room before it joins a different one.
\<close>

fun one_room_at_a_time :: "(json \<Rightarrow> string) \<Rightarrow> server \<Rightarrow> event list \<Rightarrow> bool" where
  "one_room_at_a_time str_of s [] = True"
| "one_room_at_a_time str_of s (Join p d # es) =
     ((case join_target d of None \<Rightarrow> True | Some r \<Rightarrow> in_no_other_room s p r)
      \<and> one_room_at_a_time str_of (after (join s p d)) es)"
| "one_room_at_a_time str_of s (e # es) =
     one_room_at_a_time str_of (after (handle str_of s e)) es"

text \<open>
  The converse of the invariant above, which holds while every peer is in one room at a
  time: every id in a member set has a registry entry that records the key of that
  room; and the rooms the registry records are truthy and can be dict keys.
\<close>

definition backed :: "server \<Rightarrow> bool" where
  "backed s =
     ((\<forall>sid k. sid |\<in>| members s k \<longrightarrow>
         (\<exists>m. map_of (peer_meta s) sid = Some m \<and> norm_key (m_room m) = norm_key k))
      \<and> (\<forall>sid m. map_of (peer_meta s) sid = Some m \<longrightarrow> truthy (m_room m) \<and> hashable (m_room m)))"

subsection \<open>Example inputs\<close>

text \<open>On strings \<^verbatim>\<open>str\<close> is the identity; that is all the examples need of it.\<close>

definition str_of_demo :: "json \<Rightarrow> string" where
  "str_of_demo v = (case v of JStr x \<Rightarrow> x | _ \<Rightarrow> ''?'')"

text \<open>Peer \<^verbatim>\<open>A\<close> has joined \<^verbatim>\<open>lobby\<close> as \<^verbatim>\<open>Alice\<close>.\<close>

definition alice_in_lobby :: server where
  "alice_in_lobby =
     after (join init ''A'' (JObj [(''room'', JStr ''lobby''), (''name'', JStr ''Alice'')]))"


text \<open>Peer \<^verbatim>\<open>p\<close> has joined the room NaN and left it again.\<close>

definition nan_left :: server where
  "nan_left =
     after (leave (after (join init ''p'' (JObj [(''room'', JFloat NaN)]))) ''p''
       (JObj [(''room'', JFloat NaN)]))"

text \<open>Peer \<^verbatim>\<open>p\<close> has joined room \<^verbatim>\<open>a\<close> and then room \<^verbatim>\<open>b\<close>, without leaving.\<close>

definition two_rooms :: server where
  "two_rooms =
     after (join (after (join init ''p'' (JObj [(''room'', JStr ''a'')]))) ''p''
       (JObj [(''room'', JStr ''b'')]))"

section \<open>Basic facts about the state operations\<close>

lemma then_broadcast_after [simp]: "after (then_broadcast s cs r) = s"
  by (simp add: then_broadcast_def returns_def raises_def split: sum.splits)

lemma rooms_discard_peer_meta [simp]: "peer_meta (rooms_discard s r sid) = peer_meta s"
  by (simp add: rooms_discard_def)

lemma rooms_add_peer_meta [simp]: "peer_meta (rooms_add s r sid) = peer_meta s"
  by (simp add: rooms_add_def)

lemma members_peer_meta_update [simp]: "members (s\<lparr>peer_meta := pm\<rparr>) k = members s k"
  by (simp add: members_def)

lemma norm_key_nan [simp]: "norm_key v = JFloat NaN \<longleftrightarrow> v = JFloat NaN"
  by (cases v rule: norm_key.cases) auto

lemma py_eq_iff: "b \<noteq> JFloat NaN \<Longrightarrow> py_eq a b \<longleftrightarrow> norm_key a = norm_key b"
  using norm_key_nan [of b] by (auto simp: py_eq_def simp del: norm_key_nan)

lemma py_eq_key: "py_eq a b \<Longrightarrow> norm_key a = norm_key b"
  by (simp add: py_eq_def)

lemma members_cong_key: "norm_key k = norm_key k' \<Longrightarrow> members s k = members s k'"
  by (simp add: members_def)

lemma members_rooms_discard:
  "members (rooms_discard s room sid) k =
     (if norm_key k = norm_key room then members s room |-| {|sid|} else members s k)"
  by (simp add: members_def rooms_discard_def update_conv')

lemma members_rooms_add:
  "members (rooms_add s room sid) k =
     (if norm_key k = norm_key room then finsert sid (members s room) else members s k)"
  by (simp add: members_def rooms_add_def update_conv')

lemma members_add_mono:
  "x |\<in>| members s k \<Longrightarrow> x |\<in>| members (rooms_add s room sid) k"
  by (auto simp: members_rooms_add members_cong_key [of k room])

lemma members_add_self: "sid |\<in>| members (rooms_add s room sid) room"
  by (simp add: members_rooms_add)

lemma members_discard_other:
  "x |\<in>| members s k \<Longrightarrow> x \<noteq> sid \<Longrightarrow> x |\<in>| members (rooms_discard s room sid) k"
  by (auto simp: members_rooms_discard members_cong_key [of k room])

lemma members_discard_other_room:
  "norm_key k \<noteq> norm_key room \<Longrightarrow> members (rooms_discard s room sid) k = members s k"
  by (simp add: members_rooms_discard)

lemma length_sorted_list_of_fset: "length (sorted_list_of_fset S) = fcard S"
  by (simp add: sorted_list_of_fset.rep_eq fcard.rep_eq)

lemma sorted_list_of_fset_single: "sorted_list_of_fset {|x|} = [x]"
  by (simp add: sorted_list_of_fset.rep_eq)

lemma dict_get_or_empty_obj: "dict_get (or_empty (JObj kvs)) k = dict_get (JObj kvs) k"
  by (simp add: or_empty_def dict_get_def)

lemma dict_get_delete:
  "dict_get (JObj (AList.delete k' kvs)) k = (if k = k' then Inr JNull else dict_get (JObj kvs) k)"
  by (simp add: dict_get_def delete_conv')

subsection \<open>The example states, evaluated\<close>

lemma alice_in_lobby_eq:
  "alice_in_lobby = \<lparr>rooms = [(JStr ''lobby'', {|''A''|})],
      peer_meta = [(''A'', \<lparr>m_name = JStr ''Alice'', m_room = JStr ''lobby''\<rparr>)]\<rparr>"
  by (simp add: alice_in_lobby_def join_def init_def or_empty_def dict_get_def rooms_add_def
      members_def Let_def)


lemma nan_left_eq:
  "nan_left = \<lparr>rooms = [(JFloat NaN, {||})],
      peer_meta = [(''p'', \<lparr>m_name = JStr ''p'', m_room = JFloat NaN\<rparr>)]\<rparr>"
  by (simp add: nan_left_def join_def leave_def init_def or_empty_def dict_get_def rooms_add_def
      rooms_discard_def members_def py_eq_def Let_def)

lemma two_rooms_eq:
  "two_rooms = \<lparr>rooms = [(JStr ''a'', {|''p''|}), (JStr ''b'', {|''p''|})],
      peer_meta = [(''p'', \<lparr>m_name = JStr ''p'', m_room = JStr ''b''\<rparr>)]\<rparr>"
  by (simp add: two_rooms_def join_def init_def or_empty_def dict_get_def rooms_add_def
      members_def Let_def)

subsection \<open>What each handler does to the state\<close>

lemma join_registers:
  assumes "dict_get (or_empty data) ''room'' = Inr room" "truthy room" "hashable room"
    and "dict_get (or_empty data) ''name'' = Inr nm"
  shows "after (join s sid data) =
           (rooms_add s room sid)\<lparr>peer_meta :=
              AList.update sid \<lparr>m_name = (if truthy nm then nm else JStr sid), m_room = room\<rparr>
                (peer_meta s)\<rparr>"
  using assms by (simp add: join_def Let_def)

lemma join_calls_nonempty:
  assumes "calls (join s sid data) \<noteq> []" "raised (join s sid data) = None"
  shows "\<exists>room nm. dict_get (or_empty data) ''room'' = Inr room \<and> truthy room \<and> hashable room
            \<and> dict_get (or_empty data) ''name'' = Inr nm"
  using assms
  by (auto simp: join_def Let_def returns_def raises_def split: sum.splits if_splits)

lemma leave_after:
  assumes "dict_get (or_empty data) ''room'' = Inr room" "truthy room" "hashable room"
  shows "after (leave s sid data) =
           (let s1 = rooms_discard s room sid in
            case map_of (peer_meta s) sid of
              None \<Rightarrow> s1
            | Some m \<Rightarrow>
                if py_eq (m_room m) room
                then s1\<lparr>peer_meta := AList.delete sid (peer_meta s)\<rparr> else s1)"
  using assms by (simp add: leave_def Let_def split: option.splits)

lemma disconnect_after:
  "after (disconnect s sid) =
     (let s1 = s\<lparr>peer_meta := AList.delete sid (peer_meta s)\<rparr> in
      case map_of (peer_meta s) sid of
        None \<Rightarrow> s1
      | Some info \<Rightarrow>
          if truthy (m_room info) \<and> hashable (m_room info)
          then rooms_discard s1 (m_room info) sid else s1)"
  by (simp add: disconnect_def Let_def returns_def raises_def split: option.splits)

lemma disconnect_absent:
  "map_of (peer_meta s) sid = None \<Longrightarrow> disconnect s sid = returns s []"
proof -
  assume a: "map_of (peer_meta s) sid = None"
  then have "sid \<notin> fst ` set (peer_meta s)"
    by (simp add: map_of_eq_None_iff)
  then have "AList.delete sid (peer_meta s) = peer_meta s"
    by simp
  with a show ?thesis
    by (simp add: disconnect_def)
qed

lemma disconnect_peer_meta:
  "peer_meta (after (disconnect s sid)) = AList.delete sid (peer_meta s)"
  by (simp add: disconnect_def Let_def returns_def raises_def split: option.splits)

lemma rename_after:
  "after (rename str_of s sid data) = s
   \<or> (\<exists>info nm. map_of (peer_meta s) sid = Some info
        \<and> after (rename str_of s sid data) =
            s\<lparr>peer_meta := AList.update sid (info\<lparr>m_name := nm\<rparr>) (peer_meta s)\<rparr>)"
  by (auto simp: rename_def Let_def returns_def raises_def split: sum.splits option.splits)

lemma list_peers_after [simp]: "after (list_peers s sid data) = s"
  by (simp add: list_peers_def returns_def raises_def split: sum.splits)

lemma signal_after [simp]: "after (signal s sid data) = s"
  by (simp add: signal_def returns_def raises_def split: sum.splits)

lemma offer_after [simp]: "after (offer s sid data) = s"
  by (simp add: offer_def returns_def raises_def Let_def split: sum.splits)

lemma offer_response_after [simp]: "after (offer_response s sid data) = s"
  by (simp add: offer_response_def returns_def raises_def Let_def split: sum.splits)

section \<open>Room membership of a single peer\<close>

lemma in_no_other_roomD:
  assumes "in_no_other_room s sid r" "sid |\<in>| members s k"
  shows "norm_key k = r"
proof -
  from assms(2) obtain ms where "map_of (rooms s) (norm_key k) = Some ms" "sid |\<in>| ms"
    by (auto simp: members_def split: option.splits)
  then have "(norm_key k, ms) \<in> set (rooms s)" "sid |\<in>| ms"
    by (auto dest: map_of_SomeD)
  with assms(1) show ?thesis
    by (auto simp: in_no_other_room_def list_all_iff)
qed

lemma join_target_SomeD:
  assumes "join_target d = Some r"
  shows "\<exists>room nm. dict_get (or_empty d) ''room'' = Inr room \<and> truthy room \<and> hashable room
           \<and> dict_get (or_empty d) ''name'' = Inr nm \<and> r = norm_key room"
  using assms
  by (auto simp: join_target_def dict_get_def split: sum.splits if_splits json.splits)

lemma join_target_None:
  assumes "join_target d = None"
  shows "after (join s sid d) = s"
  using assms
  by (auto simp: join_target_def join_def Let_def returns_def raises_def split: sum.splits if_splits)

lemma leave_members_subset: "x |\<in>| members (after (leave s sid d)) k \<Longrightarrow> x |\<in>| members s k"
proof (cases "\<exists>room. dict_get (or_empty d) ''room'' = Inr room \<and> truthy room \<and> hashable room")
  case True
  assume a: "x |\<in>| members (after (leave s sid d)) k"
  from True obtain room where g: "dict_get (or_empty d) ''room'' = Inr room" "truthy room"
      "hashable room"
    by blast
  from a show ?thesis
    by (auto simp: leave_after [OF g] Let_def members_rooms_discard members_cong_key [of k room]
        split: option.splits if_splits)
next
  case False
  assume a: "x |\<in>| members (after (leave s sid d)) k"
  from False have "after (leave s sid d) = s"
    by (auto simp: leave_def Let_def returns_def raises_def split: sum.splits)
  with a show ?thesis by simp
qed

text \<open>
  The invariant of the run is generalised over the room the peer may be in at the
  start, so that the induction goes through the state each event leaves.
\<close>

lemma rooms_of_peer_run:
  assumes "list_all (by_peer sid) evs"
    and "\<forall>k. sid |\<in>| members s k \<longrightarrow> cur = Some (norm_key k)"
    and "one_room_at_a_time str_of s evs"
  shows "\<forall>k. sid |\<in>| members (run str_of s evs) k \<longrightarrow> last_join_from cur evs = Some (norm_key k)"
  using assms
proof (induction evs arbitrary: s cur)
  case Nil
  then show ?case by simp
next
  case (Cons e es)
  from Cons.prems(1) have rest: "list_all (by_peer sid) es" and e: "by_peer sid e"
    by simp_all
  from e consider d where "e = Join sid d" | d where "e = Leave sid d"
    by (cases e) auto
  then show ?case
  proof cases
    case 1
    show ?thesis
    proof (cases "join_target d")
      case None
      with 1 Cons.prems Cons.IH [OF rest, of s cur] show ?thesis
        by (simp add: join_target_None)
    next
      case (Some r)
      then obtain room nm where g: "dict_get (or_empty d) ''room'' = Inr room" "truthy room"
          "hashable room" "dict_get (or_empty d) ''name'' = Inr nm" and r: "r = norm_key room"
        using join_target_SomeD by blast
      from Cons.prems(3) 1 Some have no: "in_no_other_room s sid r"
        and disc: "one_room_at_a_time str_of (after (join s sid d)) es"
        by simp_all
      have "\<forall>k. sid |\<in>| members (after (join s sid d)) k \<longrightarrow> Some r = Some (norm_key k)"
        using in_no_other_roomD [OF no] r
        by (auto simp: join_registers [OF g] members_rooms_add split: if_splits)
      from Cons.IH [OF rest this disc] 1 Some show ?thesis
        by simp
    qed
  next
    case 2
    from Cons.prems(2) have
      "\<forall>k. sid |\<in>| members (after (leave s sid d)) k \<longrightarrow> cur = Some (norm_key k)"
      by (blast dest: leave_members_subset)
    moreover from Cons.prems(3) 2 have "one_room_at_a_time str_of (after (leave s sid d)) es"
      by simp
    ultimately show ?thesis
      using Cons.IH [OF rest, of "after (leave s sid d)" cur] 2 by simp
  qed
qed

text \<open>
  C1, as stated, fails. After \<^verbatim>\<open>join a\<close> and \<^verbatim>\<open>join b\<close> with no leave in
  between, peer \<^verbatim>\<open>p\<close> is in the member sets of both rooms: \<open>join\<close> adds the peer to the
  new room and never takes it out of the old one.
\<close>

theorem single_peer_two_rooms_counterexample:
  "run str_of_demo init
      [Join ''p'' (JObj [(''room'', JStr ''a'')]), Join ''p'' (JObj [(''room'', JStr ''b'')])]
     = two_rooms
   \<and> ''p'' |\<in>| members two_rooms (JStr ''a'')
   \<and> ''p'' |\<in>| members two_rooms (JStr ''b'')
   \<and> JStr ''a'' \<noteq> JStr ''b''
   \<and> last_join
       [Join ''p'' (JObj [(''room'', JStr ''a'')]), Join ''p'' (JObj [(''room'', JStr ''b'')])]
     = Some (JStr ''b'')"
  by (simp add: two_rooms_def two_rooms_eq [unfolded two_rooms_def] members_def last_join_def
      join_target_def or_empty_def dict_get_def)

text \<open>
  C1, amended. Take a sequence of join and leave events issued by a single peer that is
  in no room at the start and that joins a room only while it is a member of no other
  room. Once the sequence has been processed, the peer's id is a member of at most one
  room of the room index, and a room that contains it is the room of the peer's last
  successful join. A member set is a finite set, so an id is never in it twice.
\<close>

theorem single_peer_one_room_at_a_time:
  assumes "list_all (by_peer sid) evs"
    and "\<forall>k. sid |\<notin>| members s k"
    and "one_room_at_a_time str_of s evs"
  shows "(\<forall>k. sid |\<in>| members (run str_of s evs) k \<longrightarrow> last_join evs = Some (norm_key k))
       \<and> (\<forall>k k'. sid |\<in>| members (run str_of s evs) k \<and> sid |\<in>| members (run str_of s evs) k'
             \<longrightarrow> norm_key k = norm_key k')"
proof -
  have "\<forall>k. sid |\<in>| members s k \<longrightarrow> None = Some (norm_key k)"
    using assms(2) by simp
  from rooms_of_peer_run [OF assms(1) this assms(3)]
  have a: "\<forall>k. sid |\<in>| members (run str_of s evs) k \<longrightarrow> last_join evs = Some (norm_key k)"
    by (simp add: last_join_def)
  then have "\<forall>k k'. sid |\<in>| members (run str_of s evs) k \<and> sid |\<in>| members (run str_of s evs) k'
             \<longrightarrow> norm_key k = norm_key k'"
    by (metis option.inject)
  with a show ?thesis by blast
qed

text \<open>Join \<^verbatim>\<open>a\<close>, leave \<^verbatim>\<open>a\<close>, join \<^verbatim>\<open>b\<close>: the peer is in \<^verbatim>\<open>b\<close>, its last join.\<close>

theorem single_peer_one_room_at_a_time_witness:
  "list_all (by_peer ''p'')
     [Join ''p'' (JObj [(''room'', JStr ''a'')]), Leave ''p'' (JObj [(''room'', JStr ''a'')]),
      Join ''p'' (JObj [(''room'', JStr ''b'')])]
   \<and> one_room_at_a_time str_of_demo init
     [Join ''p'' (JObj [(''room'', JStr ''a'')]), Leave ''p'' (JObj [(''room'', JStr ''a'')]),
      Join ''p'' (JObj [(''room'', JStr ''b'')])]
   \<and> ''p'' |\<in>| members (run str_of_demo init
     [Join ''p'' (JObj [(''room'', JStr ''a'')]), Leave ''p'' (JObj [(''room'', JStr ''a'')]),
      Join ''p'' (JObj [(''room'', JStr ''b'')])]) (JStr ''b'')
   \<and> last_join
     [Join ''p'' (JObj [(''room'', JStr ''a'')]), Leave ''p'' (JObj [(''room'', JStr ''a'')]),
      Join ''p'' (JObj [(''room'', JStr ''b'')])] = Some (JStr ''b'')"
  using single_peer_one_room_at_a_time
    [of "''p''" "[Join ''p'' (JObj [(''room'', JStr ''a'')]), Leave ''p'' (JObj [(''room'', JStr ''a'')]),
      Join ''p'' (JObj [(''room'', JStr ''b'')])]" init str_of_demo]
  by (simp add: init_def join_def leave_def or_empty_def dict_get_def rooms_add_def
      rooms_discard_def members_def Let_def join_target_def in_no_other_room_def last_join_def
      py_eq_def)

section \<open>The registry-to-index invariant\<close>

lemma registry_in_index_iff:
  "registry_in_index s \<longleftrightarrow>
     (\<forall>sid m. map_of (peer_meta s) sid = Some m \<longrightarrow> sid |\<in>| members s (m_room m))"
proof
  assume a: "registry_in_index s"
  show "\<forall>sid m. map_of (peer_meta s) sid = Some m \<longrightarrow> sid |\<in>| members s (m_room m)"
  proof (intro allI impI)
    fix sid m
    assume l: "map_of (peer_meta s) sid = Some m"
    then have "sid \<in> set (map fst (peer_meta s))"
      by (force dest: map_of_SomeD)
    with a l show "sid |\<in>| members s (m_room m)"
      by (auto simp: registry_in_index_def list_all_iff)
  qed
next
  assume "\<forall>sid m. map_of (peer_meta s) sid = Some m \<longrightarrow> sid |\<in>| members s (m_room m)"
  then show "registry_in_index s"
    by (auto simp: registry_in_index_def list_all_iff split: option.splits)
qed

lemma inv_join:
  assumes "registry_in_index s"
  shows "registry_in_index (after (join s sid data))"
proof (cases "\<exists>room nm. dict_get (or_empty data) ''room'' = Inr room \<and> truthy room
    \<and> hashable room \<and> dict_get (or_empty data) ''name'' = Inr nm")
  case True
  then obtain room nm where g: "dict_get (or_empty data) ''room'' = Inr room" "truthy room"
      "hashable room" "dict_get (or_empty data) ''name'' = Inr nm"
    by blast
  show ?thesis
    using assms unfolding registry_in_index_iff join_registers [OF g]
    by (auto simp: update_conv' members_add_mono members_add_self split: if_splits)
next
  case False
  then have "after (join s sid data) = s"
    by (auto simp: join_def Let_def returns_def raises_def split: sum.splits)
  with assms show ?thesis by simp
qed

lemma inv_leave:
  assumes "registry_in_index s" and nan: "dict_get (or_empty data) ''room'' \<noteq> Inr (JFloat NaN)"
  shows "registry_in_index (after (leave s sid data))"
proof (cases "\<exists>room. dict_get (or_empty data) ''room'' = Inr room \<and> truthy room \<and> hashable room")
  case True
  then obtain room where g: "dict_get (or_empty data) ''room'' = Inr room" "truthy room"
      "hashable room"
    by blast
  from g(1) nan have room: "room \<noteq> JFloat NaN"
    by auto
  let ?s' = "after (leave s sid data)"
  have "p |\<in>| members ?s' (m_room m)" if l: "map_of (peer_meta ?s') p = Some m" for p m
  proof (cases "p = sid")
    case True
    with l have old: "map_of (peer_meta s) sid = Some m"
      and other: "norm_key (m_room m) \<noteq> norm_key room"
      by (auto simp: leave_after [OF g] Let_def delete_conv' py_eq_iff [OF room]
          split: option.splits if_splits)
    from old assms have "sid |\<in>| members s (m_room m)"
      by (simp add: registry_in_index_iff)
    with old other True show ?thesis
      by (simp add: leave_after [OF g] Let_def members_discard_other_room)
  next
    case False
    with l have old: "map_of (peer_meta s) p = Some m"
      by (auto simp: leave_after [OF g] Let_def delete_conv' split: option.splits if_splits)
    with assms have "p |\<in>| members s (m_room m)"
      by (simp add: registry_in_index_iff)
    with False show ?thesis
      by (auto simp: leave_after [OF g] Let_def members_discard_other split: option.splits)
  qed
  then show ?thesis
    by (simp add: registry_in_index_iff)
next
  case False
  then have "after (leave s sid data) = s"
    by (auto simp: leave_def Let_def returns_def raises_def split: sum.splits)
  with assms show ?thesis by simp
qed

lemma inv_disconnect:
  assumes "registry_in_index s"
  shows "registry_in_index (after (disconnect s sid))"
  using assms unfolding registry_in_index_iff disconnect_after
  by (auto simp: Let_def delete_conv' members_discard_other split: option.splits if_splits)

lemma inv_rename:
  assumes "registry_in_index s"
  shows "registry_in_index (after (rename str_of s sid data))"
  using assms rename_after [of str_of s sid data] unfolding registry_in_index_iff
  by (auto simp: update_conv' split: if_splits)

lemma inv_handle:
  "registry_in_index s \<Longrightarrow> no_nan_leave ev \<Longrightarrow>
     registry_in_index (after (handle str_of s ev))"
  by (cases ev) (simp_all add: inv_join inv_leave inv_disconnect inv_rename returns_def)

lemma inv_run:
  "registry_in_index s \<Longrightarrow> list_all no_nan_leave evs \<Longrightarrow>
     registry_in_index (run str_of s evs)"
  by (induction evs arbitrary: s) (simp_all add: inv_handle)

lemma inv_init: "registry_in_index init"
  by (simp add: registry_in_index_def init_def)

text \<open>
  C2, as stated, fails. Peer \<^verbatim>\<open>p\<close> joins the room NaN and leaves it. \<open>leave\<close> takes
  \<^verbatim>\<open>p\<close> out of the member set of that room, but its test
  \<^verbatim>\<open>meta.get("room") == room\<close> is false, NaN being unequal to itself, so the registry
  entry stays and records a room whose member set no longer holds \<^verbatim>\<open>p\<close>.
\<close>

theorem registry_room_nan_counterexample:
  "run str_of_demo init
      [Join ''p'' (JObj [(''room'', JFloat NaN)]), Leave ''p'' (JObj [(''room'', JFloat NaN)])]
     = nan_left
   \<and> map_of (peer_meta nan_left) ''p'' = Some \<lparr>m_name = JStr ''p'', m_room = JFloat NaN\<rparr>
   \<and> ''p'' |\<notin>| members nan_left (JFloat NaN)
   \<and> \<not> registry_in_index nan_left"
  by (simp add: nan_left_def nan_left_eq [unfolded nan_left_def] members_def
      registry_in_index_def)

text \<open>
  C2, amended. The registry-to-index invariant holds between events as long as no leave
  carries NaN as its room (so whenever rooms are strings, as the handlers declare). In
  every state the server reaches from the empty one by such events, a peer whose
  registry entry records room \<open>R\<close> is in the member set of \<open>R\<close>; and every handler
  (connect, disconnect, join, leave, rename, list_peers, signal, offer, offer_response)
  takes a state with the invariant to a state with the invariant, also when it raises,
  leave doing so when its room argument is not NaN.
\<close>

theorem registry_room_is_indexed:
  "(list_all no_nan_leave evs \<longrightarrow> registry_in_index (run str_of init evs))
   \<and> (registry_in_index s \<and> no_nan_leave ev \<longrightarrow> registry_in_index (after (handle str_of s ev)))
   \<and> (list_all no_nan_leave evs \<and> map_of (peer_meta (run str_of init evs)) sid = Some m \<longrightarrow>
        sid |\<in>| members (run str_of init evs) (m_room m))"
  using inv_run [OF inv_init, of evs str_of] inv_handle [of s ev str_of]
  by (auto simp: registry_in_index_iff)

text \<open>
  Two peers join \<^verbatim>\<open>lobby\<close> and one renames itself; and a leave from the state in which
  \<^verbatim>\<open>p\<close> sits in two rooms.
\<close>

theorem registry_room_is_indexed_witness:
  "list_all no_nan_leave
        [Join ''A'' (JObj [(''room'', JStr ''lobby''), (''name'', JStr ''Alice'')]),
         Join ''B'' (JObj [(''room'', JStr ''lobby'')]),
         Rename ''B'' (JObj [(''name'', JStr ''Bob'')])]
   \<and> registry_in_index
     (run str_of_demo init
        [Join ''A'' (JObj [(''room'', JStr ''lobby''), (''name'', JStr ''Alice'')]),
         Join ''B'' (JObj [(''room'', JStr ''lobby'')]),
         Rename ''B'' (JObj [(''name'', JStr ''Bob'')])])
   \<and> registry_in_index two_rooms
   \<and> no_nan_leave (Leave ''p'' (JObj [(''room'', JStr ''a'')]))
   \<and> registry_in_index (after (handle str_of_demo two_rooms (Leave ''p'' (JObj [(''room'', JStr ''a'')]))))
   \<and> map_of (peer_meta (run str_of_demo init
        [Join ''A'' (JObj [(''room'', JStr ''lobby''), (''name'', JStr ''Alice'')]),
         Join ''B'' (JObj [(''room'', JStr ''lobby'')]),
         Rename ''B'' (JObj [(''name'', JStr ''Bob'')])])) ''B''
       = Some \<lparr>m_name = JStr ''Bob'', m_room = JStr ''lobby''\<rparr>
   \<and> ''B'' |\<in>| members (run str_of_demo init
        [Join ''A'' (JObj [(''room'', JStr ''lobby''), (''name'', JStr ''Alice'')]),
         Join ''B'' (JObj [(''room'', JStr ''lobby'')]),
         Rename ''B'' (JObj [(''name'', JStr ''Bob'')])]) (JStr ''lobby'')"
  using registry_room_is_indexed
    [of "[Join ''A'' (JObj [(''room'', JStr ''lobby''), (''name'', JStr ''Alice'')]),
         Join ''B'' (JObj [(''room'', JStr ''lobby'')]),
         Rename ''B'' (JObj [(''name'', JStr ''Bob'')])]"
        str_of_demo
        two_rooms "Leave ''p'' (JObj [(''room'', JStr ''a'')])" "''B''"
        "\<lparr>m_name = JStr ''Bob'', m_room = JStr ''lobby''\<rparr>"]
  by (simp add: two_rooms_eq registry_in_index_def init_def join_def rename_def leave_def
      or_empty_def dict_get_def rooms_add_def rooms_discard_def members_def Let_def
      str_of_demo_def py_eq_def)

section \<open>The peer list\<close>

subsection \<open>Members are backed by the registry while peers keep to one room\<close>

lemma backedI:
  assumes "\<And>p k. p |\<in>| members s k \<Longrightarrow>
      \<exists>m. map_of (peer_meta s) p = Some m \<and> norm_key (m_room m) = norm_key k"
    and "\<And>p m. map_of (peer_meta s) p = Some m \<Longrightarrow> truthy (m_room m) \<and> hashable (m_room m)"
  shows "backed s"
  unfolding backed_def using assms by blast

lemma backed_member:
  "backed s \<Longrightarrow> p |\<in>| members s k \<Longrightarrow>
     \<exists>m. map_of (peer_meta s) p = Some m \<and> norm_key (m_room m) = norm_key k"
  unfolding backed_def by blast

lemma backed_room:
  "backed s \<Longrightarrow> map_of (peer_meta s) p = Some m \<Longrightarrow> truthy (m_room m) \<and> hashable (m_room m)"
  unfolding backed_def by blast

lemma backed_init: "backed init"
  by (simp add: backed_def init_def members_def)

lemma backed_join:
  assumes b: "backed s"
    and d: "case join_target data of None \<Rightarrow> True | Some r \<Rightarrow> in_no_other_room s sid r"
  shows "backed (after (join s sid data))"
proof (cases "join_target data")
  case None
  with b show ?thesis by (simp add: join_target_None)
next
  case (Some r)
  then obtain room nm where g: "dict_get (or_empty data) ''room'' = Inr room" "truthy room"
      "hashable room" "dict_get (or_empty data) ''name'' = Inr nm" and r: "r = norm_key room"
    using join_target_SomeD by blast
  from d Some have no: "in_no_other_room s sid r" by simp
  let ?s' = "after (join s sid data)"
  let ?e = "\<lparr>m_name = (if truthy nm then nm else JStr sid), m_room = room\<rparr>"
  have pm: "map_of (peer_meta ?s') p = (if p = sid then Some ?e else map_of (peer_meta s) p)" for p
    by (simp add: join_registers [OF g] update_conv')
  have mem: "members ?s' k =
      (if norm_key k = norm_key room then finsert sid (members s room) else members s k)" for k
    by (simp add: join_registers [OF g] members_rooms_add)
  show ?thesis
  proof (rule backedI)
    fix p k assume l: "p |\<in>| members ?s' k"
    show "\<exists>m. map_of (peer_meta ?s') p = Some m \<and> norm_key (m_room m) = norm_key k"
    proof (cases "p = sid")
      case True
      have "norm_key k = norm_key room"
      proof (cases "norm_key k = norm_key room")
        case False
        with l True have "sid |\<in>| members s k" by (simp add: mem)
        from in_no_other_roomD [OF no this] r show ?thesis by simp
      qed simp
      with True show ?thesis by (simp add: pm)
    next
      case False
      with l have "p |\<in>| members s k"
        by (auto simp: mem members_cong_key [of k room] split: if_splits)
      from backed_member [OF b this] False show ?thesis by (simp add: pm)
    qed
  next
    fix p m assume "map_of (peer_meta ?s') p = Some m"
    then show "truthy (m_room m) \<and> hashable (m_room m)"
      using g(2,3) backed_room [OF b, of p m] by (auto simp: pm split: if_splits)
  qed
qed

lemma backed_leave:
  assumes b: "backed s"
  shows "backed (after (leave s sid data))"
proof (cases "\<exists>room. dict_get (or_empty data) ''room'' = Inr room \<and> truthy room \<and> hashable room")
  case True
  then obtain room where g: "dict_get (or_empty data) ''room'' = Inr room" "truthy room"
      "hashable room"
    by blast
  let ?s' = "after (leave s sid data)"
  have pm: "map_of (peer_meta ?s') p = Some m \<Longrightarrow> map_of (peer_meta s) p = Some m" for p m
    by (auto simp: leave_after [OF g] Let_def delete_conv' split: option.splits if_splits)
  show ?thesis
  proof (rule backedI)
    fix p k assume l: "p |\<in>| members ?s' k"
    then have old: "p |\<in>| members s k" by (rule leave_members_subset)
    from backed_member [OF b old]
    obtain m where m: "map_of (peer_meta s) p = Some m" "norm_key (m_room m) = norm_key k"
      by blast
    show "\<exists>m. map_of (peer_meta ?s') p = Some m \<and> norm_key (m_room m) = norm_key k"
    proof (cases "p = sid")
      case False
      with m show ?thesis
        by (auto simp: leave_after [OF g] Let_def delete_conv' split: option.splits)
    next
      case True
      with l have "norm_key k \<noteq> norm_key room"
        by (auto simp: leave_after [OF g] Let_def members_rooms_discard
            split: option.splits if_splits)
      with m have "\<not> py_eq (m_room m) room"
        by (auto dest: py_eq_key)
      with m True show ?thesis
        by (auto simp: leave_after [OF g] Let_def)
    qed
  next
    fix p m assume "map_of (peer_meta ?s') p = Some m"
    then have "map_of (peer_meta s) p = Some m" by (rule pm)
    then show "truthy (m_room m) \<and> hashable (m_room m)" by (rule backed_room [OF b])
  qed
next
  case False
  then have "after (leave s sid data) = s"
    by (auto simp: leave_def Let_def returns_def raises_def split: sum.splits)
  with b show ?thesis by simp
qed

lemma disconnect_members_subset:
  "p |\<in>| members (after (disconnect s sid)) k \<Longrightarrow> p |\<in>| members s k"
proof (cases "map_of (peer_meta s) sid")
  case None
  assume "p |\<in>| members (after (disconnect s sid)) k"
  with None show ?thesis by (simp add: disconnect_after Let_def)
next
  case (Some m)
  assume a: "p |\<in>| members (after (disconnect s sid)) k"
  show ?thesis
  proof (cases "truthy (m_room m) \<and> hashable (m_room m)")
    case True
    with a Some have "p |\<in>| members (rooms_discard s (m_room m) sid) k"
      by (simp add: disconnect_after Let_def members_def rooms_discard_def)
    then show ?thesis
      by (auto simp: members_rooms_discard members_cong_key [of k "m_room m"] split: if_splits)
  next
    case False
    with a Some show ?thesis by (auto simp: disconnect_after Let_def)
  qed
qed

lemma backed_disconnect:
  assumes b: "backed s"
  shows "backed (after (disconnect s sid))"
proof -
  let ?s' = "after (disconnect s sid)"
  have pm: "map_of (peer_meta ?s') p = (if p = sid then None else map_of (peer_meta s) p)" for p
    by (simp add: disconnect_peer_meta delete_conv')
  have gone: "sid |\<notin>| members ?s' k" for k
  proof
    assume in': "sid |\<in>| members ?s' k"
    then have old: "sid |\<in>| members s k" by (rule disconnect_members_subset)
    from backed_member [OF b old]
    obtain m where m: "map_of (peer_meta s) sid = Some m" "norm_key (m_room m) = norm_key k"
      by blast
    from backed_room [OF b m(1)] have t: "truthy (m_room m)" "hashable (m_room m)"
      by simp_all
    from in' m t have "sid |\<in>| members (rooms_discard s (m_room m) sid) k"
      by (simp add: disconnect_after Let_def members_def rooms_discard_def)
    with m(2) show False
      by (simp add: members_rooms_discard)
  qed
  show ?thesis
  proof (rule backedI)
    fix p k assume l: "p |\<in>| members ?s' k"
    with gone have ne: "p \<noteq> sid" by blast
    from l have "p |\<in>| members s k" by (rule disconnect_members_subset)
    from backed_member [OF b this] ne
    show "\<exists>m. map_of (peer_meta ?s') p = Some m \<and> norm_key (m_room m) = norm_key k"
      by (simp add: pm)
  next
    fix p m assume "map_of (peer_meta ?s') p = Some m"
    then have "map_of (peer_meta s) p = Some m" by (simp add: pm split: if_splits)
    then show "truthy (m_room m) \<and> hashable (m_room m)" by (rule backed_room [OF b])
  qed
qed

lemma backed_rename:
  assumes b: "backed s"
  shows "backed (after (rename str_of s sid data))"
  using rename_after [of str_of s sid data]
proof
  assume "after (rename str_of s sid data) = s"
  with b show ?thesis by simp
next
  assume "\<exists>info nm. map_of (peer_meta s) sid = Some info
        \<and> after (rename str_of s sid data) =
            s\<lparr>peer_meta := AList.update sid (info\<lparr>m_name := nm\<rparr>) (peer_meta s)\<rparr>"
  then obtain info nm where i: "map_of (peer_meta s) sid = Some info"
    and a: "after (rename str_of s sid data) =
            s\<lparr>peer_meta := AList.update sid (info\<lparr>m_name := nm\<rparr>) (peer_meta s)\<rparr>"
    by blast
  let ?s' = "s\<lparr>peer_meta := AList.update sid (info\<lparr>m_name := nm\<rparr>) (peer_meta s)\<rparr>"
  have "backed ?s'"
  proof (rule backedI)
    fix p k assume "p |\<in>| members ?s' k"
    then have "p |\<in>| members s k" by simp
    from backed_member [OF b this]
    obtain m where m: "map_of (peer_meta s) p = Some m" "norm_key (m_room m) = norm_key k"
      by blast
    show "\<exists>m. map_of (peer_meta ?s') p = Some m \<and> norm_key (m_room m) = norm_key k"
    proof (cases "p = sid")
      case True
      with m i have "m = info" by simp
      with m True show ?thesis by (simp add: update_conv')
    next
      case False
      with m show ?thesis by (simp add: update_conv')
    qed
  next
    fix p m assume l: "map_of (peer_meta ?s') p = Some m"
    show "truthy (m_room m) \<and> hashable (m_room m)"
    proof (cases "p = sid")
      case True
      with l have "m_room m = m_room info" by (auto simp: update_conv')
      with backed_room [OF b i] show ?thesis by simp
    next
      case False
      with l have "map_of (peer_meta s) p = Some m" by (simp add: update_conv')
      then show ?thesis by (rule backed_room [OF b])
    qed
  qed
  with a show ?thesis by simp
qed

lemma backed_run:
  "backed s \<Longrightarrow> one_room_at_a_time str_of s evs \<Longrightarrow> backed (run str_of s evs)"
proof (induction evs arbitrary: s)
  case Nil
  then show ?case by simp
next
  case (Cons e es)
  have "backed (after (handle str_of s e)) \<and> one_room_at_a_time str_of (after (handle str_of s e)) es"
    using Cons.prems
    by (cases e) (simp_all add: backed_join backed_leave backed_disconnect backed_rename returns_def)
  with Cons.IH show ?case by simp
qed

subsection \<open>What the broadcast lists\<close>

lemma peer_entries_json:
  "map (\<lambda>(sid, nm). JObj [(''sid'', JStr sid), (''name'', nm)]) (peer_entries s room)
     = map (entry_of s) (sorted_list_of_fset (members s room))"
  by (simp add: peer_entries_def entry_of_def display_name_def comp_def)

text \<open>
  C3, as stated, fails in its last part. In the state \<open>two_rooms\<close> the peer list of room
  \<^verbatim>\<open>a\<close> lists peer \<^verbatim>\<open>p\<close>, whose registry room field is \<^verbatim>\<open>b\<close>: the list is read off
  the room index alone, and the registry keeps only the room joined last.
\<close>

theorem peer_list_room_field_counterexample:
  "broadcast_peer_list two_rooms (JStr ''a'') =
     Inr [Emit ''peer-list''
            (JObj [(''peers'', JArr [JObj [(''sid'', JStr ''p''), (''name'', JStr ''p'')]])])
            (ToRoom (JStr ''a'') None)]
   \<and> map_of (peer_meta two_rooms) ''p'' = Some \<lparr>m_name = JStr ''p'', m_room = JStr ''b''\<rparr>
   \<and> JStr ''b'' \<noteq> JStr ''a''"
  by (simp add: two_rooms_eq broadcast_peer_list_def peer_entries_def members_def
      display_name_def sorted_list_of_fset_single)

text \<open>
  C3, amended. For every room \<open>R\<close> and every state: when \<open>R\<close> cannot be a dict key (a
  list or a dict), \<open>broadcast_peer_list R\<close> raises TypeError and emits nothing;
  otherwise it emits one \<^verbatim>\<open>peer-list\<close> event to \<open>R\<close> whose list has as many entries as
  the room index's member set for \<open>R\<close> has elements, and whose entries are exactly those
  of the members: the member's id with its registry display name or, when the registry
  has no entry for it, with its id as the name. In every state the server reaches from
  the empty one by events in which each peer joins a room only while it is a member of
  no other room, every listed peer has a registry entry whose room field is the room
  key \<open>R\<close>, and is equal to \<open>R\<close> under \<^verbatim>\<open>==\<close> unless \<open>R\<close> is NaN.
\<close>

theorem peer_list_lists_the_members:
  "(hashable room \<longrightarrow>
      (\<exists>entries.
         broadcast_peer_list s room =
           Inr [Emit ''peer-list'' (JObj [(''peers'', JArr entries)]) (ToRoom room None)]
         \<and> length entries = fcard (members s room)
         \<and> set entries = entry_of s ` fset (members s room)))
   \<and> (\<not> hashable room \<longrightarrow> broadcast_peer_list s room = Inl TypeError)
   \<and> (one_room_at_a_time str_of init evs \<longrightarrow>
       (\<forall>sid. sid |\<in>| members (run str_of init evs) room \<longrightarrow>
          (\<exists>m. map_of (peer_meta (run str_of init evs)) sid = Some m
               \<and> norm_key (m_room m) = norm_key room
               \<and> (room \<noteq> JFloat NaN \<longrightarrow> py_eq (m_room m) room))))"
proof (intro conjI impI allI)
  assume h: "hashable room"
  let ?es = "map (entry_of s) (sorted_list_of_fset (members s room))"
  have "broadcast_peer_list s room =
          Inr [Emit ''peer-list'' (JObj [(''peers'', JArr ?es)]) (ToRoom room None)]"
    using h by (simp add: broadcast_peer_list_def peer_entries_json)
  moreover have "length ?es = fcard (members s room)"
    by (simp add: length_sorted_list_of_fset)
  moreover have "set ?es = entry_of s ` fset (members s room)"
    by simp
  ultimately show "\<exists>entries.
         broadcast_peer_list s room =
           Inr [Emit ''peer-list'' (JObj [(''peers'', JArr entries)]) (ToRoom room None)]
         \<and> length entries = fcard (members s room)
         \<and> set entries = entry_of s ` fset (members s room)"
    by blast
next
  assume "\<not> hashable room"
  then show "broadcast_peer_list s room = Inl TypeError"
    by (simp add: broadcast_peer_list_def)
next
  fix sid
  assume d: "one_room_at_a_time str_of init evs"
    and l: "sid |\<in>| members (run str_of init evs) room"
  from backed_run [OF backed_init d] have "backed (run str_of init evs)" .
  from backed_member [OF this l]
  obtain m where m: "map_of (peer_meta (run str_of init evs)) sid = Some m"
      "norm_key (m_room m) = norm_key room"
    by blast
  then have "room \<noteq> JFloat NaN \<longrightarrow> py_eq (m_room m) room"
    by (simp add: py_eq_iff)
  with m show "\<exists>m. map_of (peer_meta (run str_of init evs)) sid = Some m
               \<and> norm_key (m_room m) = norm_key room
               \<and> (room \<noteq> JFloat NaN \<longrightarrow> py_eq (m_room m) room)"
    by blast
qed

text \<open>
  Alice's list for \<^verbatim>\<open>lobby\<close>; a list as the room; and \<^verbatim>\<open>B\<close>, listed in \<^verbatim>\<open>lobby\<close>
  after joining it, with \<^verbatim>\<open>lobby\<close> as its registry room.
\<close>

theorem peer_list_lists_the_members_witness:
  "hashable (JStr ''lobby'')
   \<and> (\<exists>entries.
        broadcast_peer_list alice_in_lobby (JStr ''lobby'') =
          Inr [Emit ''peer-list'' (JObj [(''peers'', JArr entries)]) (ToRoom (JStr ''lobby'') None)]
        \<and> length entries = 1
        \<and> set entries = {JObj [(''sid'', JStr ''A''), (''name'', JStr ''Alice'')]})
   \<and> \<not> hashable (JArr [JStr ''lobby''])
   \<and> broadcast_peer_list alice_in_lobby (JArr [JStr ''lobby'']) = Inl TypeError
   \<and> one_room_at_a_time str_of_demo init
        [Join ''A'' (JObj [(''room'', JStr ''lobby''), (''name'', JStr ''Alice'')]),
         Join ''B'' (JObj [(''room'', JStr ''lobby'')])]
   \<and> ''B'' |\<in>| members (run str_of_demo init
        [Join ''A'' (JObj [(''room'', JStr ''lobby''), (''name'', JStr ''Alice'')]),
         Join ''B'' (JObj [(''room'', JStr ''lobby'')])]) (JStr ''lobby'')
   \<and> (\<exists>m. map_of (peer_meta (run str_of_demo init
        [Join ''A'' (JObj [(''room'', JStr ''lobby''), (''name'', JStr ''Alice'')]),
         Join ''B'' (JObj [(''room'', JStr ''lobby'')])])) ''B'' = Some m
        \<and> py_eq (m_room m) (JStr ''lobby''))"
proof -
  let ?evs = "[Join ''A'' (JObj [(''room'', JStr ''lobby''), (''name'', JStr ''Alice'')]),
         Join ''B'' (JObj [(''room'', JStr ''lobby'')])]"
  note t1 = peer_list_lists_the_members [of "JStr ''lobby''" alice_in_lobby str_of_demo ?evs]
  note t2 = peer_list_lists_the_members [of "JArr [JStr ''lobby'']" alice_in_lobby str_of_demo ?evs]
  have h: "hashable (JStr ''lobby'')" and nh: "\<not> hashable (JArr [JStr ''lobby''])"
    by simp_all
  have d: "one_room_at_a_time str_of_demo init ?evs"
    by (simp add: init_def join_def or_empty_def dict_get_def rooms_add_def members_def Let_def
        join_target_def in_no_other_room_def)
  have l: "''B'' |\<in>| members (run str_of_demo init ?evs) (JStr ''lobby'')"
    by (simp add: init_def join_def or_empty_def dict_get_def rooms_add_def members_def Let_def)
  from t1 h have a: "\<exists>entries.
        broadcast_peer_list alice_in_lobby (JStr ''lobby'') =
          Inr [Emit ''peer-list'' (JObj [(''peers'', JArr entries)]) (ToRoom (JStr ''lobby'') None)]
        \<and> length entries = 1
        \<and> set entries = {JObj [(''sid'', JStr ''A''), (''name'', JStr ''Alice'')]}"
    by (simp add: alice_in_lobby_eq members_def entry_of_def fcard_finsert_if fcard_fempty)
  from t2 nh have b: "broadcast_peer_list alice_in_lobby (JArr [JStr ''lobby'']) = Inl TypeError"
    by blast
  from t1 d l have c: "\<exists>m. map_of (peer_meta (run str_of_demo init ?evs)) ''B'' = Some m
        \<and> py_eq (m_room m) (JStr ''lobby'')"
    by blast
  from h a nh b d l c show ?thesis by blast
qed

section \<open>Leave\<close>

text \<open>
  C4, as stated, fails. \<^verbatim>\<open>A\<close> is registered as \<^verbatim>\<open>Alice\<close> in \<^verbatim>\<open>lobby\<close> and leaves
  \<^verbatim>\<open>lobby\<close>. The handler pops the whole registry entry, not the room field alone:
  afterwards the registry has nothing for \<^verbatim>\<open>A\<close>, and its display name reads as its id.
\<close>

theorem leave_keeps_name_counterexample:
  "display_name alice_in_lobby ''A'' = JStr ''Alice''
   \<and> map_of (peer_meta (after (leave alice_in_lobby ''A'' (JObj [(''room'', JStr ''lobby'')])))) ''A'' = None
   \<and> display_name (after (leave alice_in_lobby ''A'' (JObj [(''room'', JStr ''lobby'')]))) ''A'' = JStr ''A''"
  by (simp add: alice_in_lobby_eq leave_def or_empty_def dict_get_def rooms_discard_def
      members_def Let_def display_name_def py_eq_def)

text \<open>
  C4, amended. For every peer and every non-empty room argument (a value that can be a
  dict key), the leave handler removes the peer from that room's member set, leaves
  every other member set as it was, and raises nothing. It removes the peer's whole
  registry entry, display name included, when the registry's recorded room equals the
  given room under \<^verbatim>\<open>==\<close> (so never for NaN); when it does not, or the peer has no
  entry, the registry is unchanged. No other peer's entry changes.
\<close>

theorem leave_drops_member_and_matching_entry:
  assumes "dict_get (or_empty data) ''room'' = Inr room" "truthy room" "hashable room"
  shows "members (after (leave s sid data)) room = members s room |-| {|sid|}
       \<and> (norm_key k \<noteq> norm_key room \<longrightarrow> members (after (leave s sid data)) k = members s k)
       \<and> map_of (peer_meta (after (leave s sid data))) p =
           (if p = sid \<and> (\<exists>m. map_of (peer_meta s) sid = Some m
                                 \<and> py_eq (m_room m) room)
            then None else map_of (peer_meta s) p)
       \<and> raised (leave s sid data) = None"
proof -
  have r: "raised (leave s sid data) = None"
    using assms
    by (simp add: leave_def Let_def then_broadcast_def broadcast_peer_list_def returns_def)
  have m1: "members (after (leave s sid data)) room = members s room |-| {|sid|}"
    by (simp add: leave_after [OF assms] Let_def members_rooms_discard split: option.splits)
  have m2: "norm_key k \<noteq> norm_key room \<Longrightarrow> members (after (leave s sid data)) k = members s k"
    by (simp add: leave_after [OF assms] Let_def members_rooms_discard split: option.splits)
  have pm: "map_of (peer_meta (after (leave s sid data))) p =
           (if p = sid \<and> (\<exists>m. map_of (peer_meta s) sid = Some m
                                 \<and> py_eq (m_room m) room)
            then None else map_of (peer_meta s) p)"
    by (auto simp: leave_after [OF assms] Let_def delete_conv' split: option.splits)
  from r m1 m2 pm show ?thesis by blast
qed

text \<open>Leaving \<^verbatim>\<open>lobby\<close> removes Alice's entry; leaving \<^verbatim>\<open>hall\<close> keeps it.\<close>

theorem leave_drops_member_and_matching_entry_witness:
  "members (after (leave alice_in_lobby ''A'' (JObj [(''room'', JStr ''lobby'')]))) (JStr ''lobby'') = {||}
   \<and> map_of (peer_meta (after (leave alice_in_lobby ''A'' (JObj [(''room'', JStr ''lobby'')])))) ''A'' = None
   \<and> map_of (peer_meta (after (leave alice_in_lobby ''A'' (JObj [(''room'', JStr ''hall'')])))) ''A''
       = Some \<lparr>m_name = JStr ''Alice'', m_room = JStr ''lobby''\<rparr>"
  using
    leave_drops_member_and_matching_entry
      [of "JObj [(''room'', JStr ''lobby'')]" "JStr ''lobby''" alice_in_lobby "''A''" "JStr ''x''" "''A''"]
    leave_drops_member_and_matching_entry
      [of "JObj [(''room'', JStr ''hall'')]" "JStr ''hall''" alice_in_lobby "''A''" "JStr ''x''" "''A''"]
  by (simp add: alice_in_lobby_eq or_empty_def dict_get_def members_def py_eq_def)

section \<open>Disconnect\<close>

text \<open>
  C5. Disconnect is idempotent. From every state and for every id, a second
  \<open>disconnect\<close> for the same id leaves the registry and the room index exactly as the
  first one left them, makes no transport call at all, and raises nothing.
\<close>

theorem disconnect_idempotent:
  "after (disconnect (after (disconnect s sid)) sid) = after (disconnect s sid)
   \<and> calls (disconnect (after (disconnect s sid)) sid) = []
   \<and> raised (disconnect (after (disconnect s sid)) sid) = None"
proof -
  have "map_of (peer_meta (after (disconnect s sid))) sid = None"
    by (simp add: disconnect_peer_meta delete_conv')
  then show ?thesis
    by (simp add: disconnect_absent returns_def)
qed

text \<open>Alice disconnects twice.\<close>

theorem disconnect_idempotent_witness:
  "after (disconnect (after (disconnect alice_in_lobby ''A'')) ''A'')
     = \<lparr>rooms = [(JStr ''lobby'', {||})], peer_meta = []\<rparr>
   \<and> calls (disconnect (after (disconnect alice_in_lobby ''A'')) ''A'') = []
   \<and> calls (disconnect alice_in_lobby ''A'') =
       [Emit ''peer-left'' (JObj [(''sid'', JStr ''A'')]) (ToRoom (JStr ''lobby'') None),
        Emit ''peer-list'' (JObj [(''peers'', JArr [])]) (ToRoom (JStr ''lobby'') None)]"
  using disconnect_idempotent [of alice_in_lobby "''A''"]
  by (simp add: alice_in_lobby_eq disconnect_def rooms_discard_def members_def Let_def
      then_broadcast_def broadcast_peer_list_def peer_entries_def returns_def
      sorted_list_of_fset.rep_eq)

section \<open>Events that lack a required field\<close>

lemma lacks_get: "lacks data k \<Longrightarrow> dict_get (or_empty data) k = Inr JNull"
  by (auto simp: lacks_def dict_get_def split: json.splits option.splits)

lemma lacks_is_dict: "lacks data k \<Longrightarrow> \<exists>kvs. or_empty data = JObj kvs"
  by (auto simp: lacks_def split: json.splits)

lemma lacks_truthy_get: "lacks data k \<Longrightarrow> truthy data \<Longrightarrow> dict_get data k = Inr JNull"
  using lacks_get [of data k] by (simp add: or_empty_def)

lemma lacks_any_get: "lacks data k \<Longrightarrow> truthy data \<Longrightarrow> \<exists>v. dict_get data k' = Inr v"
  using lacks_is_dict [of data k] by (auto simp: or_empty_def dict_get_def)

lemma lacks_any_get_or_empty: "lacks data k \<Longrightarrow> \<exists>v. dict_get (or_empty data) k' = Inr v"
  using lacks_is_dict [of data k] by (auto simp: dict_get_def)

lemma join_lacks_room: "lacks data ''room'' \<Longrightarrow> join s sid data = returns s []"
  using lacks_any_get_or_empty [of data "''room''" "''name''"]
  by (auto simp: join_def lacks_get Let_def)

lemma leave_lacks_room: "lacks data ''room'' \<Longrightarrow> leave s sid data = returns s []"
  by (simp add: leave_def lacks_get)

lemma list_peers_lacks_room: "lacks data ''room'' \<Longrightarrow> list_peers s sid data = returns s []"
  by (simp add: list_peers_def lacks_get)

lemma rename_lacks_name: "lacks data ''name'' \<Longrightarrow> rename str_of s sid data = returns s []"
  by (simp add: rename_def lacks_get)

lemma signal_lacks_room: "lacks data ''room'' \<Longrightarrow> signal s sid data = returns s []"
  using lacks_any_get [of data "''room''" "''payload''"]
  by (cases "truthy data") (auto simp: signal_def lacks_truthy_get)

lemma offer_lacks:
  assumes "lacks data k" "k \<in> {''room'', ''target'', ''payload''}"
  shows "offer s sid data = returns s []"
proof (cases "truthy data")
  case False
  then show ?thesis by (simp add: offer_def)
next
  case True
  obtain r t p where g: "dict_get data ''room'' = Inr r" "dict_get data ''target'' = Inr t"
      "dict_get data ''payload'' = Inr p"
    using lacks_any_get [OF assms(1) True] by blast
  have "\<not> truthy r \<or> \<not> truthy t \<or> p = JNull"
    using assms(2) lacks_truthy_get [OF assms(1) True] g by auto
  then show ?thesis
    using True g by (auto simp: offer_def)
qed

lemma offer_response_lacks:
  assumes "lacks data k" "k \<in> {''room'', ''target''}"
  shows "offer_response s sid data = returns s []"
proof (cases "truthy data")
  case False
  then show ?thesis by (simp add: offer_response_def)
next
  case True
  obtain r t a p ofr where g: "dict_get data ''room'' = Inr r" "dict_get data ''target'' = Inr t"
      "dict_get data ''accepted'' = Inr a" "dict_get data ''payload'' = Inr p"
      "dict_get data ''offer'' = Inr ofr"
    using lacks_any_get [OF assms(1) True] by meson
  have "\<not> truthy r \<or> \<not> truthy t"
    using assms(2) lacks_truthy_get [OF assms(1) True] g by auto
  then show ?thesis
    using True g by (auto simp: offer_response_def)
qed

lemma non_dict_get:
  "non_dict data \<Longrightarrow> dict_get data k = Inl AttributeError \<and> or_empty data = data \<and> truthy data"
  by (auto simp: non_dict_def dict_get_def or_empty_def split: json.splits)

lemma non_dict_raises:
  assumes "non_dict data"
  shows "join s sid data = raises s [] AttributeError"
    and "leave s sid data = raises s [] AttributeError"
    and "rename str_of s sid data = raises s [] AttributeError"
    and "list_peers s sid data = raises s [] AttributeError"
    and "signal s sid data = raises s [] AttributeError"
    and "offer s sid data = raises s [] AttributeError"
    and "offer_response s sid data = raises s [] AttributeError"
  using non_dict_get [OF assms]
  by (simp_all add: join_def leave_def rename_def list_peers_def signal_def offer_def
      offer_response_def)

lemma no_field_cases: "\<not> has_field data k \<Longrightarrow> lacks data k \<or> non_dict data"
  by (auto simp: has_field_def lacks_def non_dict_def or_empty_def
      split: json.splits option.splits if_splits)

text \<open>
  C6, as stated, fails. The string \<^verbatim>\<open>"abc"\<close> as the document of a join has no
  \<^verbatim>\<open>room\<close> field, and the handler does not drop it quietly:
  \<^verbatim>\<open>(data or {}).get("room")\<close> raises AttributeError to the caller.
\<close>

theorem malformed_non_dict_counterexample:
  "\<not> has_field (JStr ''abc'') ''room''
   \<and> join alice_in_lobby ''A'' (JStr ''abc'')
       = \<lparr>after = alice_in_lobby, calls = [], raised = Some AttributeError\<rparr>"
  by (simp add: has_field_def join_def or_empty_def dict_get_def raises_def)

text \<open>
  C6, amended. An inbound event whose document is a dict, or is absent or empty, and
  lacks a required field is dropped, whatever the handler: the outcome is
  \<open>returns s []\<close>, that is, the registry and the room index are the ones before, no
  transport call is made, and nothing is raised. The required fields are \<^verbatim>\<open>room\<close>
  for join, leave, list_peers, signal, offer and offer_response, \<^verbatim>\<open>name\<close> for
  rename, \<^verbatim>\<open>target\<close> for offer and offer_response, and \<^verbatim>\<open>payload\<close> for offer.
  A document that is there but is not a dict makes each of the seven handlers raise
  AttributeError to the caller, still with no transport call and no change of state.
  These are all the documents without a given field.
\<close>

theorem malformed_events_are_dropped:
  "(lacks data ''room'' \<longrightarrow>
      join s sid data = returns s [] \<and> leave s sid data = returns s []
      \<and> list_peers s sid data = returns s [] \<and> signal s sid data = returns s []
      \<and> offer s sid data = returns s [] \<and> offer_response s sid data = returns s [])
   \<and> (lacks data ''name'' \<longrightarrow> rename str_of s sid data = returns s [])
   \<and> (lacks data ''target'' \<longrightarrow>
      offer s sid data = returns s [] \<and> offer_response s sid data = returns s [])
   \<and> (lacks data ''payload'' \<longrightarrow> offer s sid data = returns s [])
   \<and> (non_dict data \<longrightarrow>
      join s sid data = raises s [] AttributeError
      \<and> leave s sid data = raises s [] AttributeError
      \<and> rename str_of s sid data = raises s [] AttributeError
      \<and> list_peers s sid data = raises s [] AttributeError
      \<and> signal s sid data = raises s [] AttributeError
      \<and> offer s sid data = raises s [] AttributeError
      \<and> offer_response s sid data = raises s [] AttributeError)
   \<and> (\<not> has_field data k \<longrightarrow> lacks data k \<or> non_dict data)"
  by (simp add: join_lacks_room leave_lacks_room list_peers_lacks_room signal_lacks_room
      rename_lacks_name offer_lacks offer_response_lacks non_dict_raises no_field_cases)

text \<open>
  A document with one unrelated field, and the string \<^verbatim>\<open>"abc"\<close>, sent to Alice's
  server by Alice.
\<close>

theorem malformed_events_are_dropped_witness:
  "lacks (JObj [(''x'', JInt 1)]) ''room'' \<and> lacks (JObj [(''x'', JInt 1)]) ''name''
   \<and> lacks (JObj [(''x'', JInt 1)]) ''target'' \<and> lacks (JObj [(''x'', JInt 1)]) ''payload''
   \<and> join alice_in_lobby ''A'' (JObj [(''x'', JInt 1)])
       = \<lparr>after = alice_in_lobby, calls = [], raised = None\<rparr>
   \<and> leave alice_in_lobby ''A'' (JObj [(''x'', JInt 1)])
       = \<lparr>after = alice_in_lobby, calls = [], raised = None\<rparr>
   \<and> rename str_of_demo alice_in_lobby ''A'' (JObj [(''x'', JInt 1)])
       = \<lparr>after = alice_in_lobby, calls = [], raised = None\<rparr>
   \<and> offer alice_in_lobby ''A'' (JObj [(''x'', JInt 1)])
       = \<lparr>after = alice_in_lobby, calls = [], raised = None\<rparr>
   \<and> offer_response alice_in_lobby ''A'' (JObj [(''x'', JInt 1)])
       = \<lparr>after = alice_in_lobby, calls = [], raised = None\<rparr>
   \<and> non_dict (JStr ''abc'')
   \<and> signal alice_in_lobby ''A'' (JStr ''abc'')
       = \<lparr>after = alice_in_lobby, calls = [], raised = Some AttributeError\<rparr>
   \<and> offer alice_in_lobby ''A'' (JStr ''abc'')
       = \<lparr>after = alice_in_lobby, calls = [], raised = Some AttributeError\<rparr>"
  using
    malformed_events_are_dropped
      [of "JObj [(''x'', JInt 1)]" alice_in_lobby "''A''" str_of_demo "''room''"]
    malformed_events_are_dropped
      [of "JStr ''abc''" alice_in_lobby "''A''" str_of_demo "''room''"]
  by (simp add: lacks_def non_dict_def or_empty_def returns_def raises_def)

section \<open>The relay handlers\<close>

text \<open>
  C7. \<open>offer\<close> and \<open>offer_response\<close> are pure relays: for every state, sender and
  document, also one they drop or fail on, the registry and the room index after the
  handler are exactly the ones before it.
\<close>

theorem relay_handlers_leave_state_unchanged:
  "after (offer s sid data) = s \<and> after (offer_response s sid data) = s"
  by (simp add: offer_def offer_response_def returns_def raises_def Let_def split: sum.splits)

theorem relay_handlers_leave_state_unchanged_witness:
  "after (offer alice_in_lobby ''B''
       (JObj [(''room'', JStr ''lobby''), (''target'', JStr ''A''), (''payload'', JInt 7)]))
     = alice_in_lobby
   \<and> after (offer_response alice_in_lobby ''A''
       (JObj [(''room'', JStr ''lobby''), (''target'', JStr ''B''), (''accepted'', JBool True)]))
     = alice_in_lobby"
  using
    relay_handlers_leave_state_unchanged
      [of alice_in_lobby "''B''"
          "JObj [(''room'', JStr ''lobby''), (''target'', JStr ''A''), (''payload'', JInt 7)]"]
    relay_handlers_leave_state_unchanged
      [of alice_in_lobby "''A''"
          "JObj [(''room'', JStr ''lobby''), (''target'', JStr ''B''), (''accepted'', JBool True)]"]
  by simp




section \<open>The display name registered by join\<close>

text \<open>
  C9. In \<open>join\<close>, a name that is present but falsy (the empty string, null, 0, false,
  an empty list or dict) is treated as an absent name: the outcome is the one of the
  same document with the \<^verbatim>\<open>name\<close> key removed, and the display name registered is the
  peer's id. So a join that registers a peer whose id is not empty never stores an
  empty or otherwise falsy display name.
\<close>

theorem join_falsy_name_is_absent_name:
  "(dict_get (JObj kvs) ''name'' = Inr nm \<and> \<not> truthy nm \<longrightarrow>
      join s sid (JObj kvs) = join s sid (JObj (AList.delete ''name'' kvs)))
   \<and> (dict_get (or_empty data) ''room'' = Inr room \<and> truthy room \<and> hashable room
        \<and> dict_get (or_empty data) ''name'' = Inr nm' \<and> \<not> truthy nm' \<longrightarrow>
      map_of (peer_meta (after (join s sid data))) sid
        = Some \<lparr>m_name = JStr sid, m_room = room\<rparr>)
   \<and> (sid \<noteq> [] \<and> calls (join s sid data) \<noteq> [] \<and> raised (join s sid data) = None \<longrightarrow>
      (\<exists>m. map_of (peer_meta (after (join s sid data))) sid = Some m \<and> truthy (m_name m)))"
proof (intro conjI impI)
  assume a: "dict_get (JObj kvs) ''name'' = Inr nm \<and> \<not> truthy nm"
  show "join s sid (JObj kvs) = join s sid (JObj (AList.delete ''name'' kvs))"
    using a by (simp add: join_def dict_get_or_empty_obj dict_get_delete split: sum.splits)
next
  assume a: "dict_get (or_empty data) ''room'' = Inr room \<and> truthy room \<and> hashable room
        \<and> dict_get (or_empty data) ''name'' = Inr nm' \<and> \<not> truthy nm'"
  then show "map_of (peer_meta (after (join s sid data))) sid
        = Some \<lparr>m_name = JStr sid, m_room = room\<rparr>"
    by (simp add: join_registers [of data room nm'] update_conv')
next
  assume a: "sid \<noteq> [] \<and> calls (join s sid data) \<noteq> [] \<and> raised (join s sid data) = None"
  then obtain room nm where g: "dict_get (or_empty data) ''room'' = Inr room" "truthy room"
      "hashable room" "dict_get (or_empty data) ''name'' = Inr nm"
    using join_calls_nonempty by blast
  show "\<exists>m. map_of (peer_meta (after (join s sid data))) sid = Some m \<and> truthy (m_name m)"
    using a by (simp add: join_registers [OF g] update_conv')
qed

text \<open>Joining \<^verbatim>\<open>lobby\<close> with the name \<^verbatim>\<open>""\<close>, and with the name \<^verbatim>\<open>0\<close>.\<close>

theorem join_falsy_name_is_absent_name_witness:
  "join init ''A'' (JObj [(''room'', JStr ''lobby''), (''name'', JStr [])])
     = join init ''A'' (JObj [(''room'', JStr ''lobby'')])
   \<and> map_of (peer_meta (after (join init ''A'' (JObj [(''room'', JStr ''lobby''), (''name'', JInt 0)])))) ''A''
     = Some \<lparr>m_name = JStr ''A'', m_room = JStr ''lobby''\<rparr>
   \<and> (\<exists>m. map_of (peer_meta (after (join init ''A'' (JObj [(''room'', JStr ''lobby''), (''name'', JInt 0)])))) ''A''
         = Some m \<and> truthy (m_name m))"
  using
    join_falsy_name_is_absent_name
      [of "[(''room'', JStr ''lobby''), (''name'', JStr [])]" "JStr []" init "''A''"
          "JObj [(''room'', JStr ''lobby''), (''name'', JInt 0)]" "JStr ''lobby''" "JInt 0"]
  by (simp add: dict_get_def or_empty_def join_def Let_def then_broadcast_def
      broadcast_peer_list_def returns_def)

section \<open>Validation in the offer handler\<close>

text \<open>
  C10. The validation of \<open>offer\<close> is asymmetric. A falsy room or a falsy target (the
  empty string included) makes the handler drop the event, and so does a payload that
  is null. Any other payload, also a falsy one such as the empty string, 0 or false, is
  accepted once room and target are truthy, and is relayed to the target unchanged.
\<close>

theorem offer_validation_is_asymmetric:
  assumes "truthy data" "dict_get data ''room'' = Inr room"
    and "dict_get data ''target'' = Inr target" "dict_get data ''payload'' = Inr payload"
  shows "(\<not> truthy room \<longrightarrow> offer s sid data = returns s [])
       \<and> (\<not> truthy target \<longrightarrow> offer s sid data = returns s [])
       \<and> (payload = JNull \<longrightarrow> offer s sid data = returns s [])
       \<and> (truthy room \<and> truthy target \<and> payload \<noteq> JNull \<longrightarrow>
            offer s sid data = returns s
              [Emit ''offer''
                 (JObj [(''from'', JStr sid), (''name'', display_name s sid), (''payload'', payload)])
                 (ToSid target)])"
  using assms by (simp add: offer_def)

text \<open>
  An empty room, an empty target and a null payload are dropped; the payloads
  \<^verbatim>\<open>""\<close>, \<^verbatim>\<open>0\<close> and \<^verbatim>\<open>false\<close> reach the target.
\<close>

theorem offer_validation_is_asymmetric_witness:
  "offer init ''a'' (JObj [(''room'', JStr []), (''target'', JStr ''b''), (''payload'', JInt 7)])
     = \<lparr>after = init, calls = [], raised = None\<rparr>
   \<and> offer init ''a'' (JObj [(''room'', JStr ''r''), (''target'', JStr []), (''payload'', JInt 7)])
     = \<lparr>after = init, calls = [], raised = None\<rparr>
   \<and> offer init ''a'' (JObj [(''room'', JStr ''r''), (''target'', JStr ''b''), (''payload'', JNull)])
     = \<lparr>after = init, calls = [], raised = None\<rparr>
   \<and> calls (offer init ''a'' (JObj [(''room'', JStr ''r''), (''target'', JStr ''b''), (''payload'', JStr [])]))
     = [Emit ''offer'' (JObj [(''from'', JStr ''a''), (''name'', JStr ''a''), (''payload'', JStr [])])
          (ToSid (JStr ''b''))]
   \<and> calls (offer init ''a'' (JObj [(''room'', JStr ''r''), (''target'', JStr ''b''), (''payload'', JInt 0)]))
     = [Emit ''offer'' (JObj [(''from'', JStr ''a''), (''name'', JStr ''a''), (''payload'', JInt 0)])
          (ToSid (JStr ''b''))]
   \<and> calls (offer init ''a'' (JObj [(''room'', JStr ''r''), (''target'', JStr ''b''), (''payload'', JBool False)]))
     = [Emit ''offer'' (JObj [(''from'', JStr ''a''), (''name'', JStr ''a''), (''payload'', JBool False)])
          (ToSid (JStr ''b''))]"
  using
    offer_validation_is_asymmetric
      [of "JObj [(''room'', JStr []), (''target'', JStr ''b''), (''payload'', JInt 7)]"
          "JStr []" "JStr ''b''" "JInt 7" init "''a''"]
    offer_validation_is_asymmetric
      [of "JObj [(''room'', JStr ''r''), (''target'', JStr []), (''payload'', JInt 7)]"
          "JStr ''r''" "JStr []" "JInt 7" init "''a''"]
    offer_validation_is_asymmetric
      [of "JObj [(''room'', JStr ''r''), (''target'', JStr ''b''), (''payload'', JNull)]"
          "JStr ''r''" "JStr ''b''" "JNull" init "''a''"]
    offer_validation_is_asymmetric
      [of "JObj [(''room'', JStr ''r''), (''target'', JStr ''b''), (''payload'', JStr [])]"
          "JStr ''r''" "JStr ''b''" "JStr []" init "''a''"]
    offer_validation_is_asymmetric
      [of "JObj [(''room'', JStr ''r''), (''target'', JStr ''b''), (''payload'', JInt 0)]"
          "JStr ''r''" "JStr ''b''" "JInt 0" init "''a''"]
    offer_validation_is_asymmetric
      [of "JObj [(''room'', JStr ''r''), (''target'', JStr ''b''), (''payload'', JBool False)]"
          "JStr ''r''" "JStr ''b''" "JBool False" init "''a''"]
  by (simp add: dict_get_def returns_def init_def display_name_def)

end
